theory Spec2Isabelle
  imports Main "HOL-Library.Sublist"
begin

section \<open>The blob container\<close>

text \<open>
  A container of the storage account holds blobs, each under a name; the names are flat
  strings in which \<open>/\<close> has no meaning to the store. The model is the list of
  (name, content) pairs in the order in which the store lists them. The store is the ideal
  one: a write always succeeds, a read fails only when the blob is absent.
\<close>

type_synonym container = "(string \<times> string) list"

datatype error = NotFound | RangeError | SyntaxError | SigningError | DecodeError string

datatype kind = KPrefix | KBlob

record item =
  kind :: kind
  name :: string

text \<open>
  \<open>containerClient.listBlobsByHierarchy(delimiter, { prefix })\<close> of the storage SDK: of the
  blobs whose name starts with the prefix, those with a delimiter after the prefix are
  reported once per first-level group as an item of kind \<open>prefix\<close> (named up to and
  including that delimiter), the others as items of kind \<open>blob\<close>. The SDK yields the
  prefixes of a page before its blobs.
\<close>

definition listBlobsByHierarchy :: "char \<Rightarrow> string \<Rightarrow> container \<Rightarrow> item list" where
  "listBlobsByHierarchy d p c =
     (let names = filter (prefix p) (map fst c);
          grouped = filter (\<lambda>n. d \<in> set (drop (length p) n)) names;
          direct = filter (\<lambda>n. d \<notin> set (drop (length p) n)) names
      in map (\<lambda>n. \<lparr>kind = KPrefix, name = n\<rparr>)
           (remdups (map (\<lambda>n. p @ takeWhile (\<lambda>x. x \<noteq> d) (drop (length p) n) @ [d]) grouped))
         @ map (\<lambda>n. \<lparr>kind = KBlob, name = n\<rparr>) direct)"

text \<open>
  \<open>blockBlobClient.upload (content, length)\<close>: creates the blob or overwrites the one of
  that name. Two things of the store are outside this model. A new name is put at the end
  of the list, while the store lists names in lexicographic order: the order of a container
  after a write is the model's own, and the statements about writes below speak of the
  content found under a name, not of the order. And the content is the text itself: the
  length that \<open>createFolder\<close> passes counts UTF-16 units, which is the number of bytes only
  for ASCII text.
\<close>

fun upload :: "string \<Rightarrow> string \<Rightarrow> container \<Rightarrow> container" where
  "upload k v [] = [(k, v)]"
| "upload k v ((k', v') # c) = (if k = k' then (k, v) # c else (k', v') # upload k v c)"

text \<open>\<open>blockBlobClient.download\<close> drained by \<open>streamToString\<close>: the content, or the
  store's 404.\<close>

definition download :: "container \<Rightarrow> string \<Rightarrow> error + string" where
  "download c k = (case map_of c k of None \<Rightarrow> Inl NotFound | Some v \<Rightarrow> Inr v)"

section \<open>JavaScript strings and truthiness\<close>

text \<open>\<open>String.prototype.includes\<close>: the argument occurs somewhere in the string.\<close>

fun str_includes :: "string \<Rightarrow> string \<Rightarrow> bool" where
  "str_includes [] sub = (sub = [])"
| "str_includes (x # xs) sub = (prefix sub (x # xs) \<or> str_includes xs sub)"

text \<open>An optional string argument is \<open>None\<close> for \<open>null\<close>; \<open>null\<close> and the empty string
  are falsy.\<close>

definition truthy :: "string option \<Rightarrow> bool" where
  "truthy a = (case a of None \<Rightarrow> False | Some s \<Rightarrow> s \<noteq> [])"

section \<open>zwila.js: reading folders\<close>

definition metafilename :: string where
  "metafilename = ''_zwila.md''"

definition getFolderMeta :: "container \<Rightarrow> string \<Rightarrow> error + string" where
  "getFolderMeta c slug = download c (slug @ ''/'' @ metafilename)"

definition listFolderBlobs :: "container \<Rightarrow> string \<Rightarrow> item list" where
  "listFolderBlobs c slug =
     filter (\<lambda>it. kind it = KBlob \<and> \<not> str_includes (name it) metafilename)
       (listBlobsByHierarchy CHR ''/'' (slug @ ''/'') c)"

record folder =
  meta :: string
  blobs :: "item list"

fun listFolders_loop ::
  "container \<Rightarrow> string option \<Rightarrow> item list \<Rightarrow> folder list \<Rightarrow> error + folder list" where
  "listFolders_loop c slug [] folders = Inr folders"
| "listFolders_loop c slug (it # items) folders =
     (if kind it = KPrefix then
        (let f = butlast (name it) in
         if truthy slug \<and> Some f \<noteq> slug then listFolders_loop c slug items folders
         else (case getFolderMeta c f of
                 Inl e \<Rightarrow> Inl e
               | Inr m \<Rightarrow>
                   listFolders_loop c slug items
                     (folders @ [\<lparr>meta = m, blobs = listFolderBlobs c f\<rparr>])))
      else listFolders_loop c slug items folders)"

definition listFolders :: "container \<Rightarrow> string option \<Rightarrow> error + folder list" where
  "listFolders c slug = listFolders_loop c slug (listBlobsByHierarchy CHR ''/'' [] c) []"

section \<open>JavaScript dates\<close>

text \<open>
  A \<open>Date\<close> holds a time value: the milliseconds since the epoch, an integer of
  magnitude at most 8.64e15, or \<open>NaN\<close> (here \<open>None\<close>) for an invalid date.
  \<open>new Date(v)\<close> clips a number outside that range to \<open>NaN\<close>.
\<close>

definition TimeClip :: "int \<Rightarrow> int option" where
  "TimeClip t = (if \<bar>t\<bar> \<le> 8640000000000000 then Some t else None)"

definition msPerDay :: int where
  "msPerDay = 24 * 60 * 60 * 1000"

text \<open>Year, month and day of a day number counted from 1970-01-01 (proleptic Gregorian
  calendar, UTC), as \<open>YearFromTime\<close>, \<open>MonthFromTime\<close> and \<open>DateFromTime\<close> of the
  language standard compute them.\<close>

definition civil_from_days :: "int \<Rightarrow> int \<times> int \<times> int" where
  "civil_from_days z =
     (let z' = z + 719468;
          era = z' div 146097;
          doe = z' mod 146097;
          yoe = (doe - doe div 1460 + doe div 36524 - doe div 146096) div 365;
          doy = doe - (365 * yoe + yoe div 4 - yoe div 100);
          mp = (5 * doy + 2) div 153;
          d = doy - (153 * mp + 2) div 5 + 1;
          m = (if mp < 10 then mp + 3 else mp - 9)
      in (yoe + era * 400 + (if m \<le> 2 then 1 else 0), m, d))"

fun pad :: "nat \<Rightarrow> nat \<Rightarrow> string" where
  "pad 0 n = []"
| "pad (Suc w) n = pad w (n div 10) @ [''0123456789'' ! (n mod 10)]"

definition iso_year :: "int \<Rightarrow> string" where
  "iso_year y =
     (if 0 \<le> y \<and> y \<le> 9999 then pad 4 (nat y)
      else if y < 0 then ''-'' @ pad 6 (nat (- y))
      else ''+'' @ pad 6 (nat y))"

definition iso_date :: "int \<Rightarrow> string" where
  "iso_date day =
     (case civil_from_days day of
        (y, m, d) \<Rightarrow> iso_year y @ ''-'' @ pad 2 (nat m) @ ''-'' @ pad 2 (nat d))"

definition iso_time :: "int \<Rightarrow> string" where
  "iso_time ms =
     pad 2 (nat (ms div 3600000)) @ '':'' @ pad 2 (nat (ms div 60000 mod 60)) @ '':''
       @ pad 2 (nat (ms div 1000 mod 60)) @ ''.'' @ pad 3 (nat (ms mod 1000))"

text \<open>\<open>Date.prototype.toISOString\<close>: the UTC date, \<open>T\<close>, the UTC time of day, \<open>Z\<close>;
  a \<open>RangeError\<close> on an invalid date.\<close>

definition toISOString :: "int option \<Rightarrow> error + string" where
  "toISOString tv =
     (case tv of
        None \<Rightarrow> Inl RangeError
      | Some t \<Rightarrow> Inr (iso_date (t div msPerDay) @ ''T'' @ iso_time (t mod msPerDay) @ ''Z''))"


text \<open>The \<open>expiry\<close> argument is a \<open>Date\<close> object or a string. An object is truthy
  whatever its time value; a string is truthy unless empty.\<close>

datatype expiry_arg = ADate "int option" | AString string

fun expiry_truthy :: "expiry_arg option \<Rightarrow> bool" where
  "expiry_truthy None = False"
| "expiry_truthy (Some (ADate tv)) = True"
| "expiry_truthy (Some (AString s)) = (s \<noteq> [])"

text \<open>\<open>new Date(expiry)\<close>: the time value of a \<open>Date\<close>, or what \<open>Date.parse\<close> makes
  of a string. \<open>Date.parse\<close> is the runtime's (its result for a text that is not in the
  ISO format is implementation-defined) and is a parameter of the model.\<close>

fun new_Date :: "(string \<Rightarrow> int option) \<Rightarrow> expiry_arg \<Rightarrow> int option" where
  "new_Date parse (ADate tv) = tv"
| "new_Date parse (AString s) = parse s"

section \<open>Slug generation\<close>

text \<open>
  Modelled from the spec: \<open>nanoid()\<close> of the package \<open>nanoid\<close>, which is not among the
  sources. The spec has it return a 21-character random identifier drawn from a URL-safe
  alphabet (ASCII letters, digits, underscore and hyphen); the comment on \<open>createFolder\<close>
  has \<open>nanoid() of len 21, eg: '2uT_9rJpk5T8-UCUBLFtJ'\<close>. The randomness is the stream
  \<open>rnd\<close> of bytes; each of the 21 characters is the alphabet's entry at the low six bits
  of one byte.
\<close>

definition urlAlphabet :: string where
  "urlAlphabet = ''useandom-26T198340PX75pxJACKVERYMINDBUSHWOLF_GQZbfghjklqvwyzrict''"

definition nanoid :: "(nat \<Rightarrow> nat) \<Rightarrow> string" where
  "nanoid rnd = map (\<lambda>i. urlAlphabet ! (rnd i mod 64)) [0..<21]"


section \<open>zwila.js: creating a folder\<close>

record config =
  account :: string
  containerName :: string

text \<open>\<open>decodeURIComponent(blockBlobClient.url)\<close>: the address of a blob, with the
  escaping of the blob name by the SDK undone.\<close>

definition blob_url :: "config \<Rightarrow> string \<Rightarrow> string" where
  "blob_url cfg blobname =
     ''https://'' @ account cfg @ ''.blob.core.windows.net/'' @ containerName cfg @ ''/'' @ blobname"

definition nl :: string where
  "nl = [CHR 0x0A]"

definition quote :: string where
  "quote = [CHR 0x27]"

text \<open>The template literal of \<open>createFolder\<close>, with the message appended when truthy.\<close>

definition encode_meta :: "string \<Rightarrow> string \<Rightarrow> string \<Rightarrow> string option \<Rightarrow> string" where
  "encode_meta slug description expiry message =
     ''+++'' @ nl
     @ ''slug = '' @ quote @ slug @ quote @ nl
     @ ''description = '' @ quote @ description @ quote @ nl
     @ ''expiry = '' @ expiry @ nl
     @ ''downloads = 0'' @ nl
     @ ''+++'' @ nl
     @ (case message of
          None \<Rightarrow> []
        | Some m \<Rightarrow> if m = [] then [] else nl @ m @ nl)"

record created =
  cmeta :: string
  url :: string

definition default_string :: "string option \<Rightarrow> string \<Rightarrow> string" where
  "default_string a d = (case a of None \<Rightarrow> d | Some s \<Rightarrow> if s = [] then d else s)"

text \<open>
  \<open>createFolder (slug, description, expiry, message)\<close>. Besides its arguments it reads the
  clock once (\<open>now\<close>, in milliseconds) and the random bytes of the slug generator, and it
  writes to the container. The result pairs what the call returns, or the error it throws,
  with the container afterwards.
\<close>

definition createFolder ::
  "(string \<Rightarrow> int option) \<Rightarrow> int \<Rightarrow> (nat \<Rightarrow> nat) \<Rightarrow> config \<Rightarrow> container
     \<Rightarrow> string option \<Rightarrow> string option \<Rightarrow> expiry_arg option \<Rightarrow> string option
     \<Rightarrow> (error + created) \<times> container" where
  "createFolder parse now rnd cfg c slug description expiry message =
     (let slug1 = default_string slug (nanoid rnd);
          description1 = default_string description [];
          expiry1 = (case expiry of
                       None \<Rightarrow> toISOString (TimeClip (now + 31 * 24 * 60 * 60 * 1000))
                     | Some a \<Rightarrow>
                         if \<not> expiry_truthy expiry
                         then toISOString (TimeClip (now + 31 * 24 * 60 * 60 * 1000))
                         else toISOString (new_Date parse a))
      in case expiry1 of
           Inl e \<Rightarrow> (Inl e, c)
         | Inr ex \<Rightarrow>
             (let md = encode_meta slug1 description1 ex message;
                  blobname = slug1 @ ''/'' @ metafilename
              in (Inr \<lparr>cmeta = md, url = blob_url cfg blobname\<rparr>, upload blobname md c)))"

section \<open>zwila.js: signed URLs\<close>






section \<open>util.js: content types\<close>

text \<open>The table of text types. \<open>util.js\<close> has three entries; its later revision (the one
  that adds the markdown type) has four.\<close>

definition textMimeTypes :: "(string \<times> string) list" where
  "textMimeTypes = [(''txt'', ''text/plain''), (''xml'', ''text/xml''), (''csv'', ''text/csv'')]"

definition textMimeTypes_md :: "(string \<times> string) list" where
  "textMimeTypes_md =
     [(''txt'', ''text/plain''), (''xml'', ''text/xml''), (''csv'', ''text/csv''),
      (''md'', ''text/markdown; charset=UTF-8'')]"

text \<open>\<open>String.prototype.split\<close> at a one-character separator.\<close>

fun str_split :: "char \<Rightarrow> string \<Rightarrow> string list" where
  "str_split d [] = [[]]"
| "str_split d (x # xs) =
     (if x = d then [] # str_split d xs
      else (case str_split d xs of [] \<Rightarrow> [[x]] | p # ps \<Rightarrow> (x # p) # ps))"

definition getFileExtension :: "string \<Rightarrow> string" where
  "getFileExtension filename = last (str_split CHR ''.'' filename)"

text \<open>What reading a property of an object literal yields: the value of an own key,
  what \<open>Object.prototype\<close> holds under an inherited key (not a string), or \<open>undefined\<close>.\<close>

datatype js_value = Str string | Undefined | Inherited string

definition object_prototype_keys :: "string list" where
  "object_prototype_keys =
     [''constructor'', ''__defineGetter__'', ''__defineSetter__'', ''hasOwnProperty'',
      ''__lookupGetter__'', ''__lookupSetter__'', ''isPrototypeOf'', ''propertyIsEnumerable'',
      ''toString'', ''valueOf'', ''__proto__'', ''toLocaleString'']"

definition property :: "(string \<times> string) list \<Rightarrow> string \<Rightarrow> js_value" where
  "property obj k =
     (case map_of obj k of
        Some v \<Rightarrow> Str v
      | None \<Rightarrow> if k \<in> set object_prototype_keys then Inherited k else Undefined)"

text \<open>
  \<open>_getContentTypeFromFile (filepath)\<close>. \<open>filetype\<close> is the MIME type that
  \<open>FileType.fromFile\<close> detects from the file's signature (\<open>None\<close> for \<open>undefined\<close>),
  \<open>isBinary\<close> what \<open>isBinaryPath\<close> says of the path; both are packages outside the
  sources and enter as inputs. The table is the revision's.
\<close>

definition getContentTypeFromFile ::
  "(string \<times> string) list \<Rightarrow> string option \<Rightarrow> bool \<Rightarrow> string \<Rightarrow> js_value" where
  "getContentTypeFromFile table filetype isBinary filepath =
     (case filetype of
        Some mime \<Rightarrow> if isBinary then Str mime else Str []
      | None \<Rightarrow> if \<not> isBinary then property table (getFileExtension filepath) else Str [])"

section \<open>The metadata record and its decoding\<close>

record metadata =
  m_slug :: string
  m_description :: string
  m_expiry :: string
  m_downloads :: nat
  m_message :: "string option"

text \<open>
  Modelled from the spec: the decoding of a metadata text. The sources write the text
  (\<open>createFolder\<close>) and hand it back as it is (\<open>getFolderMeta\<close>); no function of theirs
  parses it. The spec's codec reads the preamble between the fixed markers as
  \<open>key = value\<close> lines (slug and description quoted text, expiry an unquoted absolute
  timestamp, downloads an unquoted integer) and then, when anything follows, a blank line
  and the message body, kept verbatim. A malformed preamble is a \<open>DecodeError\<close> naming
  the field; no default is guessed.
\<close>

definition expect :: "string \<Rightarrow> string \<Rightarrow> string option" where
  "expect p s = (if prefix p s then Some (drop (length p) s) else None)"

fun read_until :: "char \<Rightarrow> string \<Rightarrow> (string \<times> string) option" where
  "read_until d [] = None"
| "read_until d (x # xs) =
     (if x = d then Some ([], xs)
      else (case read_until d xs of None \<Rightarrow> None | Some (a, b) \<Rightarrow> Some (x # a, b)))"

definition read_quoted_field :: "string \<Rightarrow> string \<Rightarrow> (string \<times> string) option" where
  "read_quoted_field key s =
     (case expect (key @ '' = '' @ quote) s of
        None \<Rightarrow> None
      | Some r \<Rightarrow>
          (case read_until (CHR 0x27) r of
             None \<Rightarrow> None
           | Some (v, r') \<Rightarrow>
               if CHR 0x0A \<in> set v then None
               else (case expect nl r' of None \<Rightarrow> None | Some r'' \<Rightarrow> Some (v, r''))))"

definition read_plain_field :: "string \<Rightarrow> string \<Rightarrow> (string \<times> string) option" where
  "read_plain_field key s =
     (case expect (key @ '' = '') s of
        None \<Rightarrow> None
      | Some r \<Rightarrow> read_until (CHR 0x0A) r)"

definition is_digit :: "char \<Rightarrow> bool" where
  "is_digit ch = (ch \<in> set ''0123456789'')"

definition digits_value :: "string \<Rightarrow> nat" where
  "digits_value s = foldl (\<lambda>a ch. 10 * a + (of_char ch - 48)) 0 s"

definition nat_of_digits :: "string \<Rightarrow> nat option" where
  "nat_of_digits s = (if s \<noteq> [] \<and> list_all is_digit s then Some (digits_value s) else None)"

text \<open>A text has the shape of a pattern when it agrees with it character by character,
  a digit standing where the pattern has \<open>d\<close>.\<close>

fun matches :: "string \<Rightarrow> string \<Rightarrow> bool" where
  "matches [] [] = True"
| "matches (p # ps) (x # xs) = ((if p = CHR ''d'' then is_digit x else x = p) \<and> matches ps xs)"
| "matches [] (x # xs) = False"
| "matches (p # ps) [] = False"

text \<open>An absolute timestamp: the shape that \<open>toISOString\<close> writes (four-digit year, or a
  signed six-digit one), with month, day, hour, minute and second in range.\<close>

definition is_timestamp :: "string \<Rightarrow> bool" where
  "is_timestamp s =
     (let body = (if matches ''dddd-dd-ddTdd:dd:dd.dddZ'' s then Some s
                  else if matches ''+dddddd-dd-ddTdd:dd:dd.dddZ'' s
                          \<or> matches ''-dddddd-dd-ddTdd:dd:dd.dddZ'' s then Some (drop 3 s)
                  else None)
      in case body of
           None \<Rightarrow> False
         | Some b \<Rightarrow>
             1 \<le> digits_value (take 2 (drop 5 b)) \<and> digits_value (take 2 (drop 5 b)) \<le> 12
             \<and> 1 \<le> digits_value (take 2 (drop 8 b)) \<and> digits_value (take 2 (drop 8 b)) \<le> 31
             \<and> digits_value (take 2 (drop 11 b)) \<le> 23
             \<and> digits_value (take 2 (drop 14 b)) \<le> 59
             \<and> digits_value (take 2 (drop 17 b)) \<le> 59)"

definition decode_meta :: "string \<Rightarrow> error + metadata" where
  "decode_meta text =
     (case expect (''+++'' @ nl) text of
        None \<Rightarrow> Inl (DecodeError ''+++'')
      | Some r0 \<Rightarrow>
     (case read_quoted_field ''slug'' r0 of
        None \<Rightarrow> Inl (DecodeError ''slug'')
      | Some (sl, r1) \<Rightarrow>
     (case read_quoted_field ''description'' r1 of
        None \<Rightarrow> Inl (DecodeError ''description'')
      | Some (de, r2) \<Rightarrow>
     (case read_plain_field ''expiry'' r2 of
        None \<Rightarrow> Inl (DecodeError ''expiry'')
      | Some (ex, r3) \<Rightarrow>
     if \<not> is_timestamp ex then Inl (DecodeError ''expiry'')
     else
     (case read_plain_field ''downloads'' r3 of
        None \<Rightarrow> Inl (DecodeError ''downloads'')
      | Some (dl, r4) \<Rightarrow>
     (case nat_of_digits dl of
        None \<Rightarrow> Inl (DecodeError ''downloads'')
      | Some n \<Rightarrow>
     (case expect (''+++'' @ nl) r4 of
        None \<Rightarrow> Inl (DecodeError ''+++'')
      | Some r5 \<Rightarrow>
     if r5 = [] then
       Inr \<lparr>m_slug = sl, m_description = de, m_expiry = ex, m_downloads = n, m_message = None\<rparr>
     else
     (case expect nl r5 of
        None \<Rightarrow> Inl (DecodeError ''message'')
      | Some body \<Rightarrow>
     if body \<noteq> [] \<and> last body = CHR 0x0A then
       Inr \<lparr>m_slug = sl, m_description = de, m_expiry = ex, m_downloads = n,
            m_message = Some (butlast body)\<rparr>
     else Inl (DecodeError ''message'')))))))))"

section \<open>zwila.mjs: folders with a JSON record\<close>

text \<open>
  The module variant keeps the record of a folder as JSON under \<open>foldermeta.json\<close> and
  decodes it on reading. \<open>JSON.parse\<close> is the runtime's: it is the parameter
  \<open>JSON_parse\<close>, which returns the decoded value or throws.
\<close>

definition mjs_getFolderMeta ::
  "(string \<Rightarrow> error + 'j) \<Rightarrow> container \<Rightarrow> string \<Rightarrow> error + 'j" where
  "mjs_getFolderMeta JSON_parse c foldername =
     (case download c (foldername @ ''/foldermeta.json'') of
        Inl e \<Rightarrow> Inl e
      | Inr json \<Rightarrow> JSON_parse json)"

definition mjs_listFolderBlobs :: "container \<Rightarrow> string \<Rightarrow> item list" where
  "mjs_listFolderBlobs c foldername =
     filter (\<lambda>it. kind it = KBlob \<and> \<not> str_includes (name it) ''foldermeta.json'')
       (listBlobsByHierarchy CHR ''/'' (foldername @ ''/'') c)"

record 'j mjs_folder =
  foldermeta :: 'j
  folderblobs :: "item list"

fun mjs_listFolders_loop ::
  "(string \<Rightarrow> error + 'j) \<Rightarrow> container \<Rightarrow> string option \<Rightarrow> item list
     \<Rightarrow> 'j mjs_folder list \<Rightarrow> error + 'j mjs_folder list" where
  "mjs_listFolders_loop JSON_parse c foldername [] folders = Inr folders"
| "mjs_listFolders_loop JSON_parse c foldername (it # items) folders =
     (if kind it = KPrefix then
        (let f = butlast (name it) in
         if truthy foldername \<and> Some f \<noteq> foldername
         then mjs_listFolders_loop JSON_parse c foldername items folders
         else (case mjs_getFolderMeta JSON_parse c f of
                 Inl e \<Rightarrow> Inl e
               | Inr m \<Rightarrow>
                   mjs_listFolders_loop JSON_parse c foldername items
                     (folders @ [\<lparr>foldermeta = m, folderblobs = mjs_listFolderBlobs c f\<rparr>])))
      else mjs_listFolders_loop JSON_parse c foldername items folders)"

definition mjs_listFolders ::
  "(string \<Rightarrow> error + 'j) \<Rightarrow> container \<Rightarrow> string option \<Rightarrow> error + 'j mjs_folder list" where
  "mjs_listFolders JSON_parse c foldername =
     mjs_listFolders_loop JSON_parse c foldername (listBlobsByHierarchy CHR ''/'' [] c) []"


section \<open>Examples\<close>

definition overlapping_names :: container where
  "overlapping_names = [(''f/_zwila.md'', ''+++''), (''f/my_zwila.md'', ''notes'')]"

definition cfg0 :: config where
  "cfg0 = \<lparr>account = ''acct'', containerName = ''zwila''\<rparr>"

text \<open>The folder of the test for expired folders: created at the instant 1625479200000
  (2021-07-05T10:00:00.000Z) with an expiry five minutes before.\<close>

definition expired_store :: container where
  "expired_store =
     snd (createFolder (\<lambda>s. None) 1625479200000 (\<lambda>i. 0) cfg0 []
            (Some ''zwila-test-expired'') (Some ''Test folder'')
            (Some (ADate (Some (1625479200000 - 5 * 60 * 1000)))) (Some ''## Downloads''))"

definition two_folders :: container where
  "two_folders =
     [(''a/_zwila.md'', encode_meta ''a'' [] ''2021-08-05T10:00:00.000Z'' None),
      (''b/_zwila.md'', encode_meta ''b'' [] ''2021-08-05T10:00:00.000Z'' None)]"

text \<open>A metadata text that names another folder than the one it lies in, as
  \<open>uploadFile\<close> to the reserved name can leave it.\<close>

definition misfiled :: container where
  "misfiled = [(''a/_zwila.md'', encode_meta ''b'' [] ''2021-08-05T10:00:00.000Z'' None)]"

text \<open>For the examples, a decoder that does of \<open>JSON.parse\<close> only this: it throws a
  \<open>SyntaxError\<close> on the empty text, which is not JSON, and returns any other text as
  it is.\<close>

definition rejects_empty :: "string \<Rightarrow> error + string" where
  "rejects_empty s = (if s = [] then Inl SyntaxError else Inr s)"

definition corrupt_and_valid :: container where
  "corrupt_and_valid = [(''bad/foldermeta.json'', []), (''good/foldermeta.json'', ''{}'')]"

text \<open>
  For the examples, a parser that does of \<open>Date.parse\<close> only this: a text in the form that
  \<open>toISOString\<close> writes (with a four-digit year) denotes the instant it was written from,
  as the language standard has it; any other text it leaves unparsed.
\<close>

definition days_from_civil :: "int \<Rightarrow> int \<Rightarrow> int \<Rightarrow> int" where
  "days_from_civil y m d =
     (let y' = (if m \<le> 2 then y - 1 else y);
          era = y' div 400;
          yoe = y' - era * 400;
          doy = (153 * (if 2 < m then m - 3 else m + 9) + 2) div 5 + d - 1;
          doe = yoe * 365 + yoe div 4 - yoe div 100 + doy
      in era * 146097 + doe - 719468)"

definition iso_only_parse :: "string \<Rightarrow> int option" where
  "iso_only_parse s =
     (if matches ''dddd-dd-ddTdd:dd:dd.dddZ'' s then
        (let t = days_from_civil (int (digits_value (take 4 s)))
                   (int (digits_value (take 2 (drop 5 s))))
                   (int (digits_value (take 2 (drop 8 s)))) * msPerDay
                 + int (digits_value (take 2 (drop 11 s))) * 3600000
                 + int (digits_value (take 2 (drop 14 s))) * 60000
                 + int (digits_value (take 2 (drop 17 s))) * 1000
                 + int (digits_value (take 3 (drop 20 s)))
         in if toISOString (TimeClip t) = Inr s then Some t else None)
      else None)"



section \<open>Listing the blobs of a folder\<close>

lemma str_includes_sublist: "str_includes s sub \<longleftrightarrow> sublist sub s"
  by (induction s) (simp_all add: sublist_Cons_right)

lemma str_includes_suffix: "str_includes (a @ sub) sub"
  by (simp add: str_includes_sublist)

lemma listBlobsByHierarchy_blobs:
  "filter (\<lambda>it. kind it = KBlob \<and> Q (name it)) (listBlobsByHierarchy d p c) =
     map (\<lambda>n. \<lparr>kind = KBlob, name = n\<rparr>)
       (filter (\<lambda>n. prefix p n \<and> d \<notin> set (drop (length p) n) \<and> Q n) (map fst c))"
  by (simp add: listBlobsByHierarchy_def Let_def filter_map o_def)

text \<open>
  C3, as the code has it. \<open>listFolderBlobs slug\<close> returns, in the store's order, exactly
  the blobs directly under \<open>slug/\<close> (no further \<open>/\<close> in the rest of the name) whose full
  name does not contain the reserved name \<open>_zwila.md\<close> anywhere; so the reserved metadata
  object itself never appears.
\<close>

theorem listFolderBlobs_members:
  "listFolderBlobs c slug =
     map (\<lambda>n. \<lparr>kind = KBlob, name = n\<rparr>)
       (filter (\<lambda>n. prefix (slug @ ''/'') n \<and> CHR ''/'' \<notin> set (drop (length (slug @ ''/'')) n)
                  \<and> \<not> str_includes n metafilename) (map fst c))
   \<and> slug @ ''/'' @ metafilename \<notin> name ` set (listFolderBlobs c slug)"
proof -
  have members: "listFolderBlobs c slug =
     map (\<lambda>n. \<lparr>kind = KBlob, name = n\<rparr>)
       (filter (\<lambda>n. prefix (slug @ ''/'') n \<and> CHR ''/'' \<notin> set (drop (length (slug @ ''/'')) n)
                  \<and> \<not> str_includes n metafilename) (map fst c))"
    unfolding listFolderBlobs_def by (rule listBlobsByHierarchy_blobs)
  have "str_includes (slug @ ''/'' @ metafilename) metafilename"
    using str_includes_suffix [of "slug @ ''/''" metafilename] by simp
  then have "slug @ ''/'' @ metafilename \<notin> name ` set (listFolderBlobs c slug)"
    unfolding members by (auto simp: image_iff)
  with members show ?thesis by blast
qed

text \<open>
  C3 as stated fails: a member object whose name differs from the reserved name, but
  contains it, is left out of the listing.
\<close>

theorem listFolderBlobs_counterexample:
  "(''f/my_zwila.md'', ''notes'') \<in> set overlapping_names
   \<and> ''my_zwila.md'' \<noteq> metafilename
   \<and> ''f/my_zwila.md'' \<notin> name ` set (listFolderBlobs overlapping_names ''f'')"
  by (simp add: overlapping_names_def metafilename_def listFolderBlobs_def
      listBlobsByHierarchy_def)


section \<open>Listing folders\<close>

lemma butlast_group: "butlast (p @ t @ [d]) = p @ t"
  by (simp add: butlast_append)

lemma selected_prefix_items:
  assumes X: "X \<noteq> []"
  shows "filter (\<lambda>it. kind it = KPrefix \<and> \<not> (truthy (Some X) \<and> Some (butlast (name it)) \<noteq> Some X))
     (listBlobsByHierarchy d p c) =
   map (\<lambda>n. \<lparr>kind = KPrefix, name = n\<rparr>)
     (filter (\<lambda>n. n = X @ [d])
        (remdups (map (\<lambda>n. p @ takeWhile (\<lambda>x. x \<noteq> d) (drop (length p) n) @ [d])
           (filter (\<lambda>n. d \<in> set (drop (length p) n)) (filter (prefix p) (map fst c))))))"
proof -
  let ?ns = "remdups (map (\<lambda>n. p @ takeWhile (\<lambda>x. x \<noteq> d) (drop (length p) n) @ [d])
           (filter (\<lambda>n. d \<in> set (drop (length p) n)) (filter (prefix p) (map fst c))))"
  have "filter (\<lambda>n. butlast n = X) ?ns = filter (\<lambda>n. n = X @ [d]) ?ns"
    by (rule filter_cong [OF refl]) (auto simp: butlast_group)
  then show ?thesis
    using X by (simp add: listBlobsByHierarchy_def Let_def filter_map o_def truthy_def)
qed


lemma listFolders_loop_skip:
  "listFolders_loop c slug items acc =
     listFolders_loop c slug
       (filter (\<lambda>it. kind it = KPrefix \<and> \<not> (truthy slug \<and> Some (butlast (name it)) \<noteq> slug)) items)
       acc"
  by (induction items arbitrary: acc) (auto simp: Let_def split: sum.splits)

lemma filter_eq_distinct:
  "distinct xs \<Longrightarrow> filter (\<lambda>x. x = a) xs = (if a \<in> set xs then [a] else [])"
  by (induction xs) (auto simp: filter_empty_conv)

lemma folder_item_listed:
  "\<lparr>kind = KPrefix, name = n\<rparr> \<in> set (listBlobsByHierarchy d p c) \<longleftrightarrow>
     n \<in> set (remdups (map (\<lambda>n. p @ takeWhile (\<lambda>x. x \<noteq> d) (drop (length p) n) @ [d])
           (filter (\<lambda>n. d \<in> set (drop (length p) n)) (filter (prefix p) (map fst c)))))"
  by (auto simp: listBlobsByHierarchy_def Let_def image_iff)

lemma listFolders_one:
  assumes "X \<noteq> []"
  shows "listFolders c (Some X) =
     (if \<lparr>kind = KPrefix, name = X @ ''/''\<rparr> \<in> set (listBlobsByHierarchy CHR ''/'' [] c)
      then (case getFolderMeta c X of
              Inl e \<Rightarrow> Inl e
            | Inr m \<Rightarrow> Inr [\<lparr>meta = m, blobs = listFolderBlobs c X\<rparr>])
      else Inr [])"
proof -
  let ?ns = "remdups (map (\<lambda>n. ([]::string) @ takeWhile (\<lambda>x. x \<noteq> CHR ''/'') (drop (length ([]::string)) n) @ [CHR ''/''])
           (filter (\<lambda>n. CHR ''/'' \<in> set (drop (length ([]::string)) n)) (filter (prefix ([]::string)) (map fst c))))"
  have sel: "filter (\<lambda>it. kind it = KPrefix \<and> \<not> (truthy (Some X) \<and> Some (butlast (name it)) \<noteq> Some X))
     (listBlobsByHierarchy CHR ''/'' [] c) =
     (if X @ ''/'' \<in> set ?ns then [\<lparr>kind = KPrefix, name = X @ ''/''\<rparr>] else [])"
    unfolding selected_prefix_items [OF assms]
    by (subst filter_eq_distinct) (simp_all only: distinct_remdups list.map if_distrib [of "map _"])
  have mem: "(\<lparr>kind = KPrefix, name = X @ ''/''\<rparr> \<in> set (listBlobsByHierarchy CHR ''/'' [] c))
      = (X @ ''/'' \<in> set ?ns)"
    by (rule folder_item_listed)
  have one: "listFolders_loop c (Some X) [\<lparr>kind = KPrefix, name = X @ ''/''\<rparr>] [] =
      (case getFolderMeta c X of
         Inl e \<Rightarrow> Inl e
       | Inr m \<Rightarrow> Inr [\<lparr>meta = m, blobs = listFolderBlobs c X\<rparr>])"
    by (simp add: Let_def split: sum.splits)
  have "listFolders c (Some X) =
      listFolders_loop c (Some X)
        (if X @ ''/'' \<in> set ?ns then [\<lparr>kind = KPrefix, name = X @ ''/''\<rparr>] else []) []"
    unfolding listFolders_def by (subst listFolders_loop_skip) (simp only: sel)
  also have "\<dots> = (if X @ ''/'' \<in> set ?ns
      then (case getFolderMeta c X of
              Inl e \<Rightarrow> Inl e
            | Inr m \<Rightarrow> Inr [\<lparr>meta = m, blobs = listFolderBlobs c X\<rparr>])
      else Inr [])"
    by (simp only: one if_distrib [of "\<lambda>its. listFolders_loop c (Some X) its []"]
        listFolders_loop.simps(1))
  finally show ?thesis unfolding mem .
qed

text \<open>
  C8, as the code has it. For a non-empty slug \<open>X\<close>, \<open>listFolders X\<close> returns no entry when
  the container has no folder \<open>X\<close>; otherwise it reads the metadata object of \<open>X\<close> and
  either throws what that read throws or returns the one entry of folder \<open>X\<close>: its
  metadata is the text stored as \<open>X/_zwila.md\<close>, its blobs are \<open>listFolderBlobs X\<close>. So a
  returned listing has at most one entry, and it is that of \<open>X\<close>. (The text names slug
  \<open>X\<close> when \<open>createFolder\<close> wrote it for \<open>X\<close>; nothing in \<open>listFolders\<close> reads it.)
\<close>

theorem listFolders_single:
  assumes "X \<noteq> []"
  shows "listFolders c (Some X) =
     (if \<lparr>kind = KPrefix, name = X @ ''/''\<rparr> \<in> set (listBlobsByHierarchy CHR ''/'' [] c)
      then (case getFolderMeta c X of
              Inl e \<Rightarrow> Inl e
            | Inr m \<Rightarrow> Inr [\<lparr>meta = m, blobs = listFolderBlobs c X\<rparr>])
      else Inr [])
    \<and> (\<forall>fs. listFolders c (Some X) = Inr fs \<longrightarrow>
          length fs \<le> 1
          \<and> (\<forall>g \<in> set fs. getFolderMeta c X = Inr (meta g) \<and> blobs g = listFolderBlobs c X))"
proof (rule conjI)
  show "listFolders c (Some X) =
     (if \<lparr>kind = KPrefix, name = X @ ''/''\<rparr> \<in> set (listBlobsByHierarchy CHR ''/'' [] c)
      then (case getFolderMeta c X of
              Inl e \<Rightarrow> Inl e
            | Inr m \<Rightarrow> Inr [\<lparr>meta = m, blobs = listFolderBlobs c X\<rparr>])
      else Inr [])"
    by (rule listFolders_one [OF assms])
  show "\<forall>fs. listFolders c (Some X) = Inr fs \<longrightarrow>
          length fs \<le> 1
          \<and> (\<forall>g \<in> set fs. getFolderMeta c X = Inr (meta g) \<and> blobs g = listFolderBlobs c X)"
    unfolding listFolders_one [OF assms] by (auto split: if_splits sum.splits)
qed

text \<open>The theorem at the folder \<open>a\<close> of a container with two folders.\<close>

theorem listFolders_single_witness:
  "''a'' \<noteq> []
   \<and> listFolders two_folders (Some ''a'') =
       Inr [\<lparr>meta = encode_meta ''a'' [] ''2021-08-05T10:00:00.000Z'' None, blobs = []\<rparr>]
   \<and> length [\<lparr>meta = encode_meta ''a'' [] ''2021-08-05T10:00:00.000Z'' None, blobs = []\<rparr>] \<le> 1
   \<and> getFolderMeta two_folders ''a'' = Inr (encode_meta ''a'' [] ''2021-08-05T10:00:00.000Z'' None)
   \<and> listFolderBlobs two_folders ''a'' = []"
proof -
  have ne: "''a'' \<noteq> []" by simp
  have run: "listFolders two_folders (Some ''a'') =
       Inr [\<lparr>meta = encode_meta ''a'' [] ''2021-08-05T10:00:00.000Z'' None, blobs = []\<rparr>]"
    by (simp add: listFolders_def listBlobsByHierarchy_def two_folders_def truthy_def
        getFolderMeta_def download_def metafilename_def listFolderBlobs_def)
  from listFolders_single [OF ne, of two_folders] run
  have "length [\<lparr>meta = encode_meta ''a'' [] ''2021-08-05T10:00:00.000Z'' None, blobs = []\<rparr>] \<le> 1
    \<and> (\<forall>g \<in> set [\<lparr>meta = encode_meta ''a'' [] ''2021-08-05T10:00:00.000Z'' None, blobs = []\<rparr>].
          getFolderMeta two_folders ''a'' = Inr (meta g) \<and> blobs g = listFolderBlobs two_folders ''a'')"
    by blast
  with ne run show ?thesis by simp
qed

text \<open>
  C8 as stated fails. The empty string is falsy, so \<open>listFolders ''\<close> filters nothing and
  returns both folders; and the entry of folder \<open>a\<close> carries whatever text lies at
  \<open>a/_zwila.md\<close>, here one whose slug is \<open>b\<close>.
\<close>

theorem listFolders_single_counterexample:
  "listFolders two_folders (Some []) =
     Inr [\<lparr>meta = encode_meta ''a'' [] ''2021-08-05T10:00:00.000Z'' None, blobs = []\<rparr>,
          \<lparr>meta = encode_meta ''b'' [] ''2021-08-05T10:00:00.000Z'' None, blobs = []\<rparr>]
   \<and> listFolders misfiled (Some ''a'') =
     Inr [\<lparr>meta = encode_meta ''b'' [] ''2021-08-05T10:00:00.000Z'' None, blobs = []\<rparr>]"
proof -
  have "listFolders two_folders (Some []) =
     Inr [\<lparr>meta = encode_meta ''a'' [] ''2021-08-05T10:00:00.000Z'' None, blobs = []\<rparr>,
          \<lparr>meta = encode_meta ''b'' [] ''2021-08-05T10:00:00.000Z'' None, blobs = []\<rparr>]"
    by (simp add: listFolders_def listBlobsByHierarchy_def two_folders_def truthy_def
        getFolderMeta_def download_def metafilename_def listFolderBlobs_def)
  moreover have "listFolders misfiled (Some ''a'') =
     Inr [\<lparr>meta = encode_meta ''b'' [] ''2021-08-05T10:00:00.000Z'' None, blobs = []\<rparr>]"
    by (simp add: listFolders_def listBlobsByHierarchy_def misfiled_def truthy_def
        getFolderMeta_def download_def metafilename_def listFolderBlobs_def)
  ultimately show ?thesis by blast
qed

text \<open>
  C1: a folder whose stored expiry is at or before the current instant is omitted by
  \<open>listFolders\<close> unless expired folders are asked for. The code does not do this:
  \<open>listFolders\<close> never reads the clock, never decodes the expiry and ignores a second
  argument. In the scenario of the repository's test (a folder created with an expiry five
  minutes in the past, then listed by its slug) the folder is listed.
\<close>

theorem listFolders_expired:
  "expired_store =
     [(''zwila-test-expired/_zwila.md'',
       encode_meta ''zwila-test-expired'' ''Test folder'' ''2021-07-05T09:55:00.000Z''
         (Some ''## Downloads''))]
   \<and> listFolders expired_store (Some ''zwila-test-expired'') =
     Inr [\<lparr>meta = encode_meta ''zwila-test-expired'' ''Test folder'' ''2021-07-05T09:55:00.000Z''
                  (Some ''## Downloads''),
           blobs = []\<rparr>]"
  by code_simp

lemma listFolders_loop_error:
  "listFolders_loop c slug items acc = Inl e \<Longrightarrow> e = NotFound"
  by (induction items arbitrary: acc)
     (auto simp: Let_def getFolderMeta_def download_def split: if_splits sum.splits option.splits)

lemma mjs_listFolders_loop_fails:
  "it \<in> set items \<Longrightarrow> kind it = KPrefix
   \<Longrightarrow> \<not> (truthy foldername \<and> Some (butlast (name it)) \<noteq> foldername)
   \<Longrightarrow> mjs_getFolderMeta JSON_parse c (butlast (name it)) = Inl e
   \<Longrightarrow> \<exists>e'. mjs_listFolders_loop JSON_parse c foldername items acc = Inl e'"
proof (induction items arbitrary: acc)
  case Nil
  then show ?case by simp
next
  case (Cons x items)
  show ?case
  proof (cases "x = it")
    case True
    with Cons.prems show ?thesis by (auto simp: Let_def)
  next
    case False
    with Cons.prems have "it \<in> set items" by simp
    from Cons.IH [OF this Cons.prems(2-4)] show ?thesis
      by (simp add: Let_def split: sum.splits)
  qed
qed

lemma set_listBlobsByHierarchy_prefixes:
  "\<lparr>kind = KPrefix, name = n\<rparr> \<in> set (listBlobsByHierarchy d p c) \<longleftrightarrow>
     (\<exists>k \<in> fst ` set c. prefix p k \<and> d \<in> set (drop (length p) k)
        \<and> n = p @ takeWhile (\<lambda>x. x \<noteq> d) (drop (length p) k) @ [d])"
  by (auto simp: listBlobsByHierarchy_def Let_def image_iff)

lemma takeWhile_until: "d \<notin> set f \<Longrightarrow> takeWhile (\<lambda>x. x \<noteq> d) (f @ d # rest) = f"
  by (induction f) auto

lemma folder_is_listed:
  assumes "map_of c (f @ CHR ''/'' # rest) = Some v" and "CHR ''/'' \<notin> set f"
  shows "\<lparr>kind = KPrefix, name = f @ ''/''\<rparr> \<in> set (listBlobsByHierarchy CHR ''/'' [] c)"
proof -
  from assms(1) have "f @ CHR ''/'' # rest \<in> fst ` set c"
    by (metis map_of_eq_None_iff option.distinct(1))
  then show ?thesis
    unfolding set_listBlobsByHierarchy_prefixes
    by (rule bexI [rotated]) (simp add: takeWhile_until [OF assms(2)])
qed

text \<open>
  C2, as the code has it. Nothing in \<open>listFolders\<close> catches an error. In \<open>zwila.mjs\<close>,
  where \<open>getFolderMeta\<close> decodes the record with \<open>JSON.parse\<close>, a listed folder whose
  record fails to decode makes the whole call throw: no listing is returned, whatever the
  other folders hold. In \<open>zwila.js\<close> the metadata text is returned undecoded, so that the
  only error of \<open>listFolders\<close> is a folder without metadata object.
\<close>

theorem listFolders_decode_failure:
  assumes "map_of c (f @ ''/foldermeta.json'') = Some json"
    and "CHR ''/'' \<notin> set f"
    and "JSON_parse json = Inl e"
    and "\<not> truthy foldername \<or> foldername = Some f"
  shows "(\<exists>e'. mjs_listFolders JSON_parse c foldername = Inl e')
    \<and> (\<forall>e'. listFolders c' slug = Inl e' \<longrightarrow> e' = NotFound)"
proof -
  have listed: "\<lparr>kind = KPrefix, name = f @ ''/''\<rparr> \<in> set (listBlobsByHierarchy CHR ''/'' [] c)"
    using folder_is_listed [of c f "''foldermeta.json''" json] assms(1,2) by simp
  have fails: "mjs_getFolderMeta JSON_parse c f = Inl e"
    using assms(1,3) by (simp add: mjs_getFolderMeta_def download_def)
  have "\<exists>e'. mjs_listFolders_loop JSON_parse c foldername
               (listBlobsByHierarchy CHR ''/'' [] c) [] = Inl e'"
    by (rule mjs_listFolders_loop_fails [OF listed]) (use assms(4) fails in auto)
  moreover have "\<forall>e'. listFolders c' slug = Inl e' \<longrightarrow> e' = NotFound"
    unfolding listFolders_def using listFolders_loop_error by blast
  ultimately show ?thesis unfolding mjs_listFolders_def by blast
qed

text \<open>The theorem at a container with one undecodable and one valid record.\<close>

theorem listFolders_decode_failure_witness:
  "map_of corrupt_and_valid (''bad'' @ ''/foldermeta.json'') = Some []
   \<and> CHR ''/'' \<notin> set ''bad''
   \<and> rejects_empty [] = Inl SyntaxError
   \<and> (\<exists>e'. mjs_listFolders rejects_empty corrupt_and_valid None = Inl e')"
proof -
  have h1: "map_of corrupt_and_valid (''bad'' @ ''/foldermeta.json'') = Some []"
    by (simp add: corrupt_and_valid_def)
  have h2: "CHR ''/'' \<notin> set ''bad''" by simp
  have h3: "rejects_empty [] = Inl SyntaxError" by (simp add: rejects_empty_def)
  have h4: "\<not> truthy None \<or> None = Some ''bad''" by (simp add: truthy_def)
  from listFolders_decode_failure
         [where JSON_parse = rejects_empty and json = "[]" and foldername = None, OF h1 h2 h3 h4]
       h1 h2 h3
  show ?thesis by blast
qed

text \<open>
  C2 as stated fails: with one folder whose record does not decode and one valid folder,
  the decode error escapes \<open>listFolders\<close>, although the valid record alone decodes.
\<close>

theorem listFolders_isolation_counterexample:
  "mjs_listFolders rejects_empty corrupt_and_valid None = Inl SyntaxError
   \<and> mjs_getFolderMeta rejects_empty corrupt_and_valid ''good'' = Inr ''{}''"
  by code_simp


section \<open>The metadata codec\<close>

lemma expect_append: "expect p (p @ s) = Some s"
  by (simp add: expect_def)

lemma expect_self: "expect p p = Some []"
  by (simp add: expect_def)

lemma read_until_append: "d \<notin> set v \<Longrightarrow> read_until d (v @ d # r) = Some (v, r)"
  by (induction v) auto

lemma read_quoted_field_ok:
  assumes "CHR 0x27 \<notin> set v" and "CHR 0x0A \<notin> set v"
  shows "read_quoted_field key (key @ '' = '' @ quote @ v @ quote @ nl @ r) = Some (v, r)"
proof -
  have "expect (key @ '' = '' @ quote) (key @ '' = '' @ quote @ v @ quote @ nl @ r)
          = Some (v @ CHR 0x27 # nl @ r)"
    using expect_append [of "key @ '' = '' @ quote" "v @ CHR 0x27 # nl @ r"]
    by (simp add: quote_def)
  moreover have "read_until (CHR 0x27) (v @ CHR 0x27 # nl @ r) = Some (v, nl @ r)"
    by (rule read_until_append [OF assms(1)])
  ultimately show ?thesis
    using assms(2) by (simp add: read_quoted_field_def expect_append)
qed

lemma read_plain_field_ok:
  assumes "CHR 0x0A \<notin> set v"
  shows "read_plain_field key (key @ '' = '' @ v @ nl @ r) = Some (v, r)"
proof -
  have "expect (key @ '' = '') (key @ '' = '' @ v @ nl @ r) = Some (v @ CHR 0x0A # r)"
    using expect_append [of "key @ '' = ''" "v @ CHR 0x0A # r"] by (simp add: nl_def)
  then show ?thesis
    by (simp add: read_plain_field_def read_until_append [OF assms])
qed

lemma matches_chars: "matches p s \<Longrightarrow> x \<in> set s \<Longrightarrow> is_digit x \<or> x \<in> set p"
  by (induction p s rule: matches.induct) (auto split: if_splits)

lemma is_timestamp_no_newline:
  assumes "is_timestamp e"
  shows "CHR 0x0A \<notin> set e"
proof
  assume nl: "CHR 0x0A \<in> set e"
  from assms consider "matches ''dddd-dd-ddTdd:dd:dd.dddZ'' e"
    | "matches ''+dddddd-dd-ddTdd:dd:dd.dddZ'' e"
    | "matches ''-dddddd-dd-ddTdd:dd:dd.dddZ'' e"
    by (auto simp: is_timestamp_def Let_def split: if_splits)
  then show False
  proof cases
    case 1
    from matches_chars [OF 1 nl] show False by (simp add: is_digit_def)
  next
    case 2
    from matches_chars [OF 2 nl] show False by (simp add: is_digit_def)
  next
    case 3
    from matches_chars [OF 3 nl] show False by (simp add: is_digit_def)
  qed
qed

lemma encode_meta_layout:
  "encode_meta slug description expiry message =
     (''+++'' @ nl) @ (''slug'' @ '' = '' @ quote @ slug @ quote @ nl @
       (''description'' @ '' = '' @ quote @ description @ quote @ nl @
         (''expiry'' @ '' = '' @ expiry @ nl @
           (''downloads'' @ '' = '' @ ''0'' @ nl @
             ((''+++'' @ nl) @
               (case message of None \<Rightarrow> [] | Some m \<Rightarrow> if m = [] then [] else nl @ m @ nl))))))"
  by (simp add: encode_meta_def)

text \<open>
  C4, as the code has it. \<open>createFolder\<close> writes the fields into the text without escaping
  them, and always writes \<open>downloads = 0\<close>. Decoding the text yields the record again when
  slug and description contain neither a single quote nor a line break, the expiry is an
  absolute timestamp in the ISO form, and the message is absent or not empty.
\<close>

theorem decode_encode:
  assumes "CHR 0x27 \<notin> set slug" and "CHR 0x0A \<notin> set slug"
    and "CHR 0x27 \<notin> set description" and "CHR 0x0A \<notin> set description"
    and "is_timestamp expiry"
    and "message \<noteq> Some []"
  shows "decode_meta (encode_meta slug description expiry message) =
     Inr \<lparr>m_slug = slug, m_description = description, m_expiry = expiry,
          m_downloads = 0, m_message = message\<rparr>"
proof -
  have zero: "nat_of_digits ''0'' = Some 0"
    by (simp add: nat_of_digits_def digits_value_def is_digit_def)
  have nonl: "CHR 0x0A \<notin> set ''0''" by simp
  have tail: "m @ nl \<noteq> []" "last (m @ nl) = CHR 0x0A" "butlast (m @ nl) = m"
    "nl @ m @ nl \<noteq> []" for m
    by (simp_all add: nl_def)
  show ?thesis
  proof (cases message)
    case None
    then show ?thesis
      unfolding encode_meta_layout decode_meta_def
      by (simp only: expect_append read_quoted_field_ok [OF assms(1,2)]
          read_quoted_field_ok [OF assms(3,4)]
          read_plain_field_ok [OF is_timestamp_no_newline [OF assms(5)]]
          read_plain_field_ok [OF nonl] zero assms(5) expect_self
          option.case prod.case if_True if_False not_True_eq_False not_False_eq_True
          append_Nil2 simp_thms)
  next
    case (Some m)
    with assms(6) have m: "m \<noteq> []" by simp
    show ?thesis
      unfolding encode_meta_layout decode_meta_def Some
      using m
      by (simp only: expect_append read_quoted_field_ok [OF assms(1,2)]
          read_quoted_field_ok [OF assms(3,4)]
          read_plain_field_ok [OF is_timestamp_no_newline [OF assms(5)]]
          read_plain_field_ok [OF nonl] zero assms(5) tail
          option.case prod.case if_True if_False not_True_eq_False not_False_eq_True
          simp_thms)
  qed
qed

text \<open>The theorem at the record of the repository's test folder.\<close>

theorem decode_encode_witness:
  "CHR 0x27 \<notin> set ''zwila-test'' \<and> CHR 0x0A \<notin> set ''zwila-test''
   \<and> CHR 0x27 \<notin> set ''Test folder'' \<and> CHR 0x0A \<notin> set ''Test folder''
   \<and> is_timestamp ''2021-08-05T10:00:00.000Z''
   \<and> Some ''## Downloads'' \<noteq> Some []
   \<and> decode_meta (encode_meta ''zwila-test'' ''Test folder'' ''2021-08-05T10:00:00.000Z''
        (Some ''## Downloads'')) =
     Inr \<lparr>m_slug = ''zwila-test'', m_description = ''Test folder'',
          m_expiry = ''2021-08-05T10:00:00.000Z'', m_downloads = 0,
          m_message = Some ''## Downloads''\<rparr>"
proof -
  have h1: "CHR 0x27 \<notin> set ''zwila-test''" and h2: "CHR 0x0A \<notin> set ''zwila-test''"
    and h3: "CHR 0x27 \<notin> set ''Test folder''" and h4: "CHR 0x0A \<notin> set ''Test folder''"
    and h6: "Some ''## Downloads'' \<noteq> Some []"
    by simp_all
  have h5: "is_timestamp ''2021-08-05T10:00:00.000Z''" by code_simp
  from decode_encode [OF h1 h2 h3 h4 h5 h6] h1 h2 h3 h4 h5 h6 show ?thesis by blast
qed

text \<open>
  C4 as stated fails. A description with an apostrophe is written unescaped, and the text no
  longer decodes; and one text is the encoding of two different records (the fields of one
  holding what reads as the field boundary of the other), so that no decoding at all can
  give back every record.
\<close>

theorem decode_encode_counterexample:
  "decode_meta (encode_meta ''f'' (''Bob'' @ quote @ ''s files'') ''2021-08-05T10:00:00.000Z'' None)
     = Inl (DecodeError ''description'')
   \<and> encode_meta ''a'' (''b'' @ quote @ nl @ ''description = '' @ quote @ ''c'')
        ''2021-08-05T10:00:00.000Z'' None
     = encode_meta (''a'' @ quote @ nl @ ''description = '' @ quote @ ''b'') ''c''
        ''2021-08-05T10:00:00.000Z'' None
   \<and> ''a'' \<noteq> ''a'' @ quote @ nl @ ''description = '' @ quote @ ''b''"
  by code_simp


section \<open>Creating a folder\<close>


lemma iso_date_shift: "(t + n * msPerDay) div msPerDay = t div msPerDay + n"
  and iso_time_shift: "(t + n * msPerDay) mod msPerDay = t mod msPerDay"
  by (simp_all add: msPerDay_def)

lemma default_expiry:
  assumes "\<bar>now + 31 * msPerDay\<bar> \<le> 8640000000000000"
  shows "toISOString (TimeClip (now + 31 * 24 * 60 * 60 * 1000)) =
           Inr (iso_date (now div msPerDay + 31) @ ''T'' @ iso_time (now mod msPerDay) @ ''Z'')"
proof -
  have eq: "now + 31 * 24 * 60 * 60 * 1000 = now + 31 * msPerDay" by (simp add: msPerDay_def)
  show ?thesis
    unfolding eq using assms
    by (simp add: TimeClip_def toISOString_def iso_date_shift iso_time_shift)
qed

text \<open>
  C10, as the code has it. An expiry argument that is truthy (a \<open>Date\<close> object, or a string
  that is not empty) and does not denote a valid date makes \<open>createFolder\<close> throw the
  \<open>RangeError\<close> of \<open>toISOString\<close> before anything is written: the container is unchanged.
\<close>

theorem createFolder_invalid_expiry:
  assumes "expiry_truthy (Some a)" and "new_Date parse a = None"
  shows "createFolder parse now rnd cfg c slug description (Some a) message = (Inl RangeError, c)"
  using assms unfolding createFolder_def Let_def by (simp add: toISOString_def)

text \<open>The theorem at a string that does not parse, on a container with two folders.\<close>

theorem createFolder_invalid_expiry_witness:
  "expiry_truthy (Some (AString ''next week'')) \<and> new_Date (\<lambda>s. None) (AString ''next week'') = None
   \<and> createFolder (\<lambda>s. None) 1625479200000 (\<lambda>i. 0) cfg0 two_folders (Some ''f'') None
        (Some (AString ''next week'')) None = (Inl RangeError, two_folders)"
proof -
  have h1: "expiry_truthy (Some (AString ''next week''))" by simp
  have h2: "new_Date (\<lambda>s. None) (AString ''next week'') = None" by simp
  from createFolder_invalid_expiry [OF h1 h2] h1 h2 show ?thesis by blast
qed

text \<open>
  C10 as stated fails: the empty string does not parse as a date, but it is falsy, so
  \<open>createFolder\<close> takes the expiry as omitted, throws nothing and writes the folder with the
  default expiry.
\<close>

theorem createFolder_invalid_expiry_counterexample:
  "new_Date (\<lambda>s. None) (AString []) = None
   \<and> createFolder (\<lambda>s. None) 1625479200000 (\<lambda>i. 0) cfg0 [] (Some ''f'') None (Some (AString [])) None =
       (Inr \<lparr>cmeta = encode_meta ''f'' [] ''2021-08-05T10:00:00.000Z'' None,
             url = blob_url cfg0 ''f/_zwila.md''\<rparr>,
        [(''f/_zwila.md'', encode_meta ''f'' [] ''2021-08-05T10:00:00.000Z'' None)])"
  by code_simp








section \<open>The stored expiry\<close>

lemma map_of_upload: "map_of (upload k v c) = (map_of c)(k \<mapsto> v)"
  by (induction c) auto

lemma createFolder_stores:
  assumes "(case expiry of
              None \<Rightarrow> toISOString (TimeClip (now + 31 * 24 * 60 * 60 * 1000))
            | Some a \<Rightarrow> if \<not> expiry_truthy expiry
                        then toISOString (TimeClip (now + 31 * 24 * 60 * 60 * 1000))
                        else toISOString (new_Date parse a)) = Inr x"
  shows "fst (createFolder parse now rnd cfg c slug description expiry message) =
           Inr \<lparr>cmeta = ''+++'' @ [CHR 0x0A]
                    @ ''slug = '' @ [CHR 0x27] @ default_string slug (nanoid rnd) @ [CHR 0x27, CHR 0x0A]
                    @ ''description = '' @ [CHR 0x27] @ default_string description [] @ [CHR 0x27, CHR 0x0A]
                    @ ''expiry = '' @ x @ [CHR 0x0A]
                    @ ''downloads = 0'' @ [CHR 0x0A]
                    @ ''+++'' @ [CHR 0x0A]
                    @ (case message of None \<Rightarrow> []
                       | Some m \<Rightarrow> if m = [] then [] else [CHR 0x0A] @ m @ [CHR 0x0A]),
                 url = ''https://'' @ account cfg @ ''.blob.core.windows.net/'' @ containerName cfg
                    @ ''/'' @ default_string slug (nanoid rnd) @ ''/_zwila.md''\<rparr>
         \<and> map_of (snd (createFolder parse now rnd cfg c slug description expiry message)) =
             (map_of c)(default_string slug (nanoid rnd) @ ''/_zwila.md'' \<mapsto>
                 ''+++'' @ [CHR 0x0A]
                    @ ''slug = '' @ [CHR 0x27] @ default_string slug (nanoid rnd) @ [CHR 0x27, CHR 0x0A]
                    @ ''description = '' @ [CHR 0x27] @ default_string description [] @ [CHR 0x27, CHR 0x0A]
                    @ ''expiry = '' @ x @ [CHR 0x0A]
                    @ ''downloads = 0'' @ [CHR 0x0A]
                    @ ''+++'' @ [CHR 0x0A]
                    @ (case message of None \<Rightarrow> []
                       | Some m \<Rightarrow> if m = [] then [] else [CHR 0x0A] @ m @ [CHR 0x0A]))"
  unfolding createFolder_def Let_def assms
  by (cases message)
     (simp_all add: map_of_upload encode_meta_def blob_url_def metafilename_def nl_def quote_def)

text \<open>
  C6, as the code has it. Called without expiry, or with a falsy one (the empty string),
  \<open>createFolder\<close> returns and stores under \<open>slug/_zwila.md\<close> the metadata text written
  out below, whose expiry line holds the ISO form of the instant 31 days after the clock
  reading: its date is the UTC day of the call plus 31, its time of day that of the call.
  (The clock is taken within the range of valid dates.) Called with a \<open>Date\<close> object or
  a string that is not empty, and that denotes the instant \<open>t\<close>, it stores the same text
  with the ISO form of \<open>t\<close> in the expiry line. In both cases every other blob of the
  container is as it was.
\<close>

theorem createFolder_stored_expiry:
  "(\<not> expiry_truthy expiry \<and> \<bar>now + 31 * msPerDay\<bar> \<le> 8640000000000000 \<longrightarrow>
      fst (createFolder parse now rnd cfg c slug description expiry message) =
        Inr \<lparr>cmeta = ''+++'' @ [CHR 0x0A]
                @ ''slug = '' @ [CHR 0x27] @ default_string slug (nanoid rnd) @ [CHR 0x27, CHR 0x0A]
                @ ''description = '' @ [CHR 0x27] @ default_string description [] @ [CHR 0x27, CHR 0x0A]
                @ ''expiry = '' @ (iso_date (now div msPerDay + 31) @ ''T'' @ iso_time (now mod msPerDay) @ ''Z'') @ [CHR 0x0A]
                @ ''downloads = 0'' @ [CHR 0x0A]
                @ ''+++'' @ [CHR 0x0A]
                @ (case message of None \<Rightarrow> []
                   | Some m \<Rightarrow> if m = [] then [] else [CHR 0x0A] @ m @ [CHR 0x0A]),
             url = ''https://'' @ account cfg @ ''.blob.core.windows.net/'' @ containerName cfg
                @ ''/'' @ default_string slug (nanoid rnd) @ ''/_zwila.md''\<rparr>
      \<and> map_of (snd (createFolder parse now rnd cfg c slug description expiry message)) =
          (map_of c)(default_string slug (nanoid rnd) @ ''/_zwila.md'' \<mapsto>
             ''+++'' @ [CHR 0x0A]
                @ ''slug = '' @ [CHR 0x27] @ default_string slug (nanoid rnd) @ [CHR 0x27, CHR 0x0A]
                @ ''description = '' @ [CHR 0x27] @ default_string description [] @ [CHR 0x27, CHR 0x0A]
                @ ''expiry = '' @ (iso_date (now div msPerDay + 31) @ ''T'' @ iso_time (now mod msPerDay) @ ''Z'') @ [CHR 0x0A]
                @ ''downloads = 0'' @ [CHR 0x0A]
                @ ''+++'' @ [CHR 0x0A]
                @ (case message of None \<Rightarrow> []
                   | Some m \<Rightarrow> if m = [] then [] else [CHR 0x0A] @ m @ [CHR 0x0A])))
   \<and> (expiry_truthy (Some a) \<and> new_Date parse a = Some t \<longrightarrow>
      fst (createFolder parse now rnd cfg c slug description (Some a) message) =
        Inr \<lparr>cmeta = ''+++'' @ [CHR 0x0A]
                @ ''slug = '' @ [CHR 0x27] @ default_string slug (nanoid rnd) @ [CHR 0x27, CHR 0x0A]
                @ ''description = '' @ [CHR 0x27] @ default_string description [] @ [CHR 0x27, CHR 0x0A]
                @ ''expiry = '' @ (iso_date (t div msPerDay) @ ''T'' @ iso_time (t mod msPerDay) @ ''Z'') @ [CHR 0x0A]
                @ ''downloads = 0'' @ [CHR 0x0A]
                @ ''+++'' @ [CHR 0x0A]
                @ (case message of None \<Rightarrow> []
                   | Some m \<Rightarrow> if m = [] then [] else [CHR 0x0A] @ m @ [CHR 0x0A]),
             url = ''https://'' @ account cfg @ ''.blob.core.windows.net/'' @ containerName cfg
                @ ''/'' @ default_string slug (nanoid rnd) @ ''/_zwila.md''\<rparr>
      \<and> map_of (snd (createFolder parse now rnd cfg c slug description (Some a) message)) =
          (map_of c)(default_string slug (nanoid rnd) @ ''/_zwila.md'' \<mapsto>
             ''+++'' @ [CHR 0x0A]
                @ ''slug = '' @ [CHR 0x27] @ default_string slug (nanoid rnd) @ [CHR 0x27, CHR 0x0A]
                @ ''description = '' @ [CHR 0x27] @ default_string description [] @ [CHR 0x27, CHR 0x0A]
                @ ''expiry = '' @ (iso_date (t div msPerDay) @ ''T'' @ iso_time (t mod msPerDay) @ ''Z'') @ [CHR 0x0A]
                @ ''downloads = 0'' @ [CHR 0x0A]
                @ ''+++'' @ [CHR 0x0A]
                @ (case message of None \<Rightarrow> []
                   | Some m \<Rightarrow> if m = [] then [] else [CHR 0x0A] @ m @ [CHR 0x0A])))"
proof (rule conjI; rule impI)
  assume h: "\<not> expiry_truthy expiry \<and> \<bar>now + 31 * msPerDay\<bar> \<le> 8640000000000000"
  then have iso: "toISOString (TimeClip (now + 31 * 24 * 60 * 60 * 1000)) =
           Inr (iso_date (now div msPerDay + 31) @ ''T'' @ iso_time (now mod msPerDay) @ ''Z'')"
    by (intro default_expiry) (rule conjunct2)
  from h have "(case expiry of
              None \<Rightarrow> toISOString (TimeClip (now + 31 * 24 * 60 * 60 * 1000))
            | Some a \<Rightarrow> if \<not> expiry_truthy expiry
                        then toISOString (TimeClip (now + 31 * 24 * 60 * 60 * 1000))
                        else toISOString (new_Date parse a)) =
           Inr (iso_date (now div msPerDay + 31) @ ''T'' @ iso_time (now mod msPerDay) @ ''Z'')"
    unfolding iso by (cases expiry) simp_all
  from createFolder_stores [OF this]
  show "fst (createFolder parse now rnd cfg c slug description expiry message) =
        Inr \<lparr>cmeta = ''+++'' @ [CHR 0x0A]
                @ ''slug = '' @ [CHR 0x27] @ default_string slug (nanoid rnd) @ [CHR 0x27, CHR 0x0A]
                @ ''description = '' @ [CHR 0x27] @ default_string description [] @ [CHR 0x27, CHR 0x0A]
                @ ''expiry = '' @ (iso_date (now div msPerDay + 31) @ ''T'' @ iso_time (now mod msPerDay) @ ''Z'') @ [CHR 0x0A]
                @ ''downloads = 0'' @ [CHR 0x0A]
                @ ''+++'' @ [CHR 0x0A]
                @ (case message of None \<Rightarrow> []
                   | Some m \<Rightarrow> if m = [] then [] else [CHR 0x0A] @ m @ [CHR 0x0A]),
             url = ''https://'' @ account cfg @ ''.blob.core.windows.net/'' @ containerName cfg
                @ ''/'' @ default_string slug (nanoid rnd) @ ''/_zwila.md''\<rparr>
      \<and> map_of (snd (createFolder parse now rnd cfg c slug description expiry message)) =
          (map_of c)(default_string slug (nanoid rnd) @ ''/_zwila.md'' \<mapsto>
             ''+++'' @ [CHR 0x0A]
                @ ''slug = '' @ [CHR 0x27] @ default_string slug (nanoid rnd) @ [CHR 0x27, CHR 0x0A]
                @ ''description = '' @ [CHR 0x27] @ default_string description [] @ [CHR 0x27, CHR 0x0A]
                @ ''expiry = '' @ (iso_date (now div msPerDay + 31) @ ''T'' @ iso_time (now mod msPerDay) @ ''Z'') @ [CHR 0x0A]
                @ ''downloads = 0'' @ [CHR 0x0A]
                @ ''+++'' @ [CHR 0x0A]
                @ (case message of None \<Rightarrow> []
                   | Some m \<Rightarrow> if m = [] then [] else [CHR 0x0A] @ m @ [CHR 0x0A]))" .
next
  assume h: "expiry_truthy (Some a) \<and> new_Date parse a = Some t"
  then have "(case Some a of
              None \<Rightarrow> toISOString (TimeClip (now + 31 * 24 * 60 * 60 * 1000))
            | Some b \<Rightarrow> if \<not> expiry_truthy (Some a)
                        then toISOString (TimeClip (now + 31 * 24 * 60 * 60 * 1000))
                        else toISOString (new_Date parse b)) =
           Inr (iso_date (t div msPerDay) @ ''T'' @ iso_time (t mod msPerDay) @ ''Z'')"
    by (simp add: toISOString_def)
  from createFolder_stores [OF this]
  show "fst (createFolder parse now rnd cfg c slug description (Some a) message) =
        Inr \<lparr>cmeta = ''+++'' @ [CHR 0x0A]
                @ ''slug = '' @ [CHR 0x27] @ default_string slug (nanoid rnd) @ [CHR 0x27, CHR 0x0A]
                @ ''description = '' @ [CHR 0x27] @ default_string description [] @ [CHR 0x27, CHR 0x0A]
                @ ''expiry = '' @ (iso_date (t div msPerDay) @ ''T'' @ iso_time (t mod msPerDay) @ ''Z'') @ [CHR 0x0A]
                @ ''downloads = 0'' @ [CHR 0x0A]
                @ ''+++'' @ [CHR 0x0A]
                @ (case message of None \<Rightarrow> []
                   | Some m \<Rightarrow> if m = [] then [] else [CHR 0x0A] @ m @ [CHR 0x0A]),
             url = ''https://'' @ account cfg @ ''.blob.core.windows.net/'' @ containerName cfg
                @ ''/'' @ default_string slug (nanoid rnd) @ ''/_zwila.md''\<rparr>
      \<and> map_of (snd (createFolder parse now rnd cfg c slug description (Some a) message)) =
          (map_of c)(default_string slug (nanoid rnd) @ ''/_zwila.md'' \<mapsto>
             ''+++'' @ [CHR 0x0A]
                @ ''slug = '' @ [CHR 0x27] @ default_string slug (nanoid rnd) @ [CHR 0x27, CHR 0x0A]
                @ ''description = '' @ [CHR 0x27] @ default_string description [] @ [CHR 0x27, CHR 0x0A]
                @ ''expiry = '' @ (iso_date (t div msPerDay) @ ''T'' @ iso_time (t mod msPerDay) @ ''Z'') @ [CHR 0x0A]
                @ ''downloads = 0'' @ [CHR 0x0A]
                @ ''+++'' @ [CHR 0x0A]
                @ (case message of None \<Rightarrow> []
                   | Some m \<Rightarrow> if m = [] then [] else [CHR 0x0A] @ m @ [CHR 0x0A]))" .
qed

text \<open>The theorem without expiry at 1999-12-15T12:30:45.678Z, on a container that already
  holds the metadata of the folder and another blob, and with a string as expiry, the last
  millisecond of 2024-02-29. Then four calls with all of their result: the first again; one
  with the empty string as expiry at 2024-02-01T00:00:00.000Z, with description and
  message; one with the string; and one with a \<open>Date\<close>.\<close>

theorem createFolder_stored_expiry_witness:
  "\<not> expiry_truthy None \<and> \<bar>945261045678 + 31 * msPerDay\<bar> \<le> 8640000000000000
   \<and> expiry_truthy (Some (AString ''2024-02-29T23:59:59.999Z''))
   \<and> new_Date iso_only_parse (AString ''2024-02-29T23:59:59.999Z'') = Some 1709251199999
   \<and> map_of (snd (createFolder iso_only_parse 945261045678 (\<lambda>i. 0) cfg0 overlapping_names (Some ''f'') None None None)) =
       (map_of overlapping_names)(''f/_zwila.md'' \<mapsto>
          ''+++'' @ [CHR 0x0A]
                @ ''slug = '' @ [CHR 0x27] @ ''f'' @ [CHR 0x27, CHR 0x0A]
                @ ''description = '' @ [CHR 0x27] @ [] @ [CHR 0x27, CHR 0x0A]
                @ ''expiry = '' @ ''2000-01-15T12:30:45.678Z'' @ [CHR 0x0A]
                @ ''downloads = 0'' @ [CHR 0x0A]
                @ ''+++'' @ [CHR 0x0A])
   \<and> fst (createFolder iso_only_parse 1625479200000 (\<lambda>i. 0) cfg0 [] (Some ''f'') None (Some (AString ''2024-02-29T23:59:59.999Z'')) None) =
       Inr \<lparr>cmeta = ''+++'' @ [CHR 0x0A]
                @ ''slug = '' @ [CHR 0x27] @ ''f'' @ [CHR 0x27, CHR 0x0A]
                @ ''description = '' @ [CHR 0x27] @ [] @ [CHR 0x27, CHR 0x0A]
                @ ''expiry = '' @ ''2024-02-29T23:59:59.999Z'' @ [CHR 0x0A]
                @ ''downloads = 0'' @ [CHR 0x0A]
                @ ''+++'' @ [CHR 0x0A],
            url = ''https://acct.blob.core.windows.net/zwila/f/_zwila.md''\<rparr>
   \<and> createFolder iso_only_parse 945261045678 (\<lambda>i. 0) cfg0 overlapping_names (Some ''f'') None None None =
       (Inr \<lparr>cmeta = ''+++'' @ [CHR 0x0A]
                @ ''slug = '' @ [CHR 0x27] @ ''f'' @ [CHR 0x27, CHR 0x0A]
                @ ''description = '' @ [CHR 0x27] @ [] @ [CHR 0x27, CHR 0x0A]
                @ ''expiry = '' @ ''2000-01-15T12:30:45.678Z'' @ [CHR 0x0A]
                @ ''downloads = 0'' @ [CHR 0x0A]
                @ ''+++'' @ [CHR 0x0A],
             url = ''https://acct.blob.core.windows.net/zwila/f/_zwila.md''\<rparr>,
        [(''f/_zwila.md'', ''+++'' @ [CHR 0x0A]
                @ ''slug = '' @ [CHR 0x27] @ ''f'' @ [CHR 0x27, CHR 0x0A]
                @ ''description = '' @ [CHR 0x27] @ [] @ [CHR 0x27, CHR 0x0A]
                @ ''expiry = '' @ ''2000-01-15T12:30:45.678Z'' @ [CHR 0x0A]
                @ ''downloads = 0'' @ [CHR 0x0A]
                @ ''+++'' @ [CHR 0x0A]),
         (''f/my_zwila.md'', ''notes'')])
   \<and> createFolder iso_only_parse 1706745600000 (\<lambda>i. 0) cfg0 [] (Some ''g'') (Some ''Test folder'') (Some (AString [])) (Some ''## Downloads'') =
       (Inr \<lparr>cmeta = ''+++'' @ [CHR 0x0A]
                @ ''slug = '' @ [CHR 0x27] @ ''g'' @ [CHR 0x27, CHR 0x0A]
                @ ''description = '' @ [CHR 0x27] @ ''Test folder'' @ [CHR 0x27, CHR 0x0A]
                @ ''expiry = '' @ ''2024-03-03T00:00:00.000Z'' @ [CHR 0x0A]
                @ ''downloads = 0'' @ [CHR 0x0A]
                @ ''+++'' @ [CHR 0x0A]
                @ [CHR 0x0A] @ ''## Downloads'' @ [CHR 0x0A],
             url = ''https://acct.blob.core.windows.net/zwila/g/_zwila.md''\<rparr>,
        [(''g/_zwila.md'', ''+++'' @ [CHR 0x0A]
                @ ''slug = '' @ [CHR 0x27] @ ''g'' @ [CHR 0x27, CHR 0x0A]
                @ ''description = '' @ [CHR 0x27] @ ''Test folder'' @ [CHR 0x27, CHR 0x0A]
                @ ''expiry = '' @ ''2024-03-03T00:00:00.000Z'' @ [CHR 0x0A]
                @ ''downloads = 0'' @ [CHR 0x0A]
                @ ''+++'' @ [CHR 0x0A]
                @ [CHR 0x0A] @ ''## Downloads'' @ [CHR 0x0A])])
   \<and> createFolder iso_only_parse 1625479200000 (\<lambda>i. 0) cfg0 [] (Some ''f'') None (Some (AString ''2024-02-29T23:59:59.999Z'')) None =
       (Inr \<lparr>cmeta = ''+++'' @ [CHR 0x0A]
                @ ''slug = '' @ [CHR 0x27] @ ''f'' @ [CHR 0x27, CHR 0x0A]
                @ ''description = '' @ [CHR 0x27] @ [] @ [CHR 0x27, CHR 0x0A]
                @ ''expiry = '' @ ''2024-02-29T23:59:59.999Z'' @ [CHR 0x0A]
                @ ''downloads = 0'' @ [CHR 0x0A]
                @ ''+++'' @ [CHR 0x0A],
             url = ''https://acct.blob.core.windows.net/zwila/f/_zwila.md''\<rparr>,
        [(''f/_zwila.md'', ''+++'' @ [CHR 0x0A]
                @ ''slug = '' @ [CHR 0x27] @ ''f'' @ [CHR 0x27, CHR 0x0A]
                @ ''description = '' @ [CHR 0x27] @ [] @ [CHR 0x27, CHR 0x0A]
                @ ''expiry = '' @ ''2024-02-29T23:59:59.999Z'' @ [CHR 0x0A]
                @ ''downloads = 0'' @ [CHR 0x0A]
                @ ''+++'' @ [CHR 0x0A])])
   \<and> createFolder iso_only_parse 1625479200000 (\<lambda>i. 0) cfg0 [] (Some ''f'') None (Some (ADate (Some 1639562400000))) None =
       (Inr \<lparr>cmeta = ''+++'' @ [CHR 0x0A]
                @ ''slug = '' @ [CHR 0x27] @ ''f'' @ [CHR 0x27, CHR 0x0A]
                @ ''description = '' @ [CHR 0x27] @ [] @ [CHR 0x27, CHR 0x0A]
                @ ''expiry = '' @ ''2021-12-15T10:00:00.000Z'' @ [CHR 0x0A]
                @ ''downloads = 0'' @ [CHR 0x0A]
                @ ''+++'' @ [CHR 0x0A],
             url = ''https://acct.blob.core.windows.net/zwila/f/_zwila.md''\<rparr>,
        [(''f/_zwila.md'', ''+++'' @ [CHR 0x0A]
                @ ''slug = '' @ [CHR 0x27] @ ''f'' @ [CHR 0x27, CHR 0x0A]
                @ ''description = '' @ [CHR 0x27] @ [] @ [CHR 0x27, CHR 0x0A]
                @ ''expiry = '' @ ''2021-12-15T10:00:00.000Z'' @ [CHR 0x0A]
                @ ''downloads = 0'' @ [CHR 0x0A]
                @ ''+++'' @ [CHR 0x0A])])"
proof -
  have h1: "\<not> expiry_truthy None \<and> \<bar>945261045678 + 31 * msPerDay\<bar> \<le> 8640000000000000"
    by (simp add: msPerDay_def)
  have h2: "expiry_truthy (Some (AString ''2024-02-29T23:59:59.999Z''))
   \<and> new_Date iso_only_parse (AString ''2024-02-29T23:59:59.999Z'') = Some 1709251199999"
    by code_simp
  have a: "createFolder iso_only_parse 945261045678 (\<lambda>i. 0) cfg0 overlapping_names (Some ''f'') None None None =
       (Inr \<lparr>cmeta = ''+++'' @ [CHR 0x0A]
                @ ''slug = '' @ [CHR 0x27] @ ''f'' @ [CHR 0x27, CHR 0x0A]
                @ ''description = '' @ [CHR 0x27] @ [] @ [CHR 0x27, CHR 0x0A]
                @ ''expiry = '' @ ''2000-01-15T12:30:45.678Z'' @ [CHR 0x0A]
                @ ''downloads = 0'' @ [CHR 0x0A]
                @ ''+++'' @ [CHR 0x0A],
             url = ''https://acct.blob.core.windows.net/zwila/f/_zwila.md''\<rparr>,
        [(''f/_zwila.md'', ''+++'' @ [CHR 0x0A]
                @ ''slug = '' @ [CHR 0x27] @ ''f'' @ [CHR 0x27, CHR 0x0A]
                @ ''description = '' @ [CHR 0x27] @ [] @ [CHR 0x27, CHR 0x0A]
                @ ''expiry = '' @ ''2000-01-15T12:30:45.678Z'' @ [CHR 0x0A]
                @ ''downloads = 0'' @ [CHR 0x0A]
                @ ''+++'' @ [CHR 0x0A]),
         (''f/my_zwila.md'', ''notes'')])"
    by code_simp
  have b: "createFolder iso_only_parse 1706745600000 (\<lambda>i. 0) cfg0 [] (Some ''g'') (Some ''Test folder'') (Some (AString [])) (Some ''## Downloads'') =
       (Inr \<lparr>cmeta = ''+++'' @ [CHR 0x0A]
                @ ''slug = '' @ [CHR 0x27] @ ''g'' @ [CHR 0x27, CHR 0x0A]
                @ ''description = '' @ [CHR 0x27] @ ''Test folder'' @ [CHR 0x27, CHR 0x0A]
                @ ''expiry = '' @ ''2024-03-03T00:00:00.000Z'' @ [CHR 0x0A]
                @ ''downloads = 0'' @ [CHR 0x0A]
                @ ''+++'' @ [CHR 0x0A]
                @ [CHR 0x0A] @ ''## Downloads'' @ [CHR 0x0A],
             url = ''https://acct.blob.core.windows.net/zwila/g/_zwila.md''\<rparr>,
        [(''g/_zwila.md'', ''+++'' @ [CHR 0x0A]
                @ ''slug = '' @ [CHR 0x27] @ ''g'' @ [CHR 0x27, CHR 0x0A]
                @ ''description = '' @ [CHR 0x27] @ ''Test folder'' @ [CHR 0x27, CHR 0x0A]
                @ ''expiry = '' @ ''2024-03-03T00:00:00.000Z'' @ [CHR 0x0A]
                @ ''downloads = 0'' @ [CHR 0x0A]
                @ ''+++'' @ [CHR 0x0A]
                @ [CHR 0x0A] @ ''## Downloads'' @ [CHR 0x0A])])"
    by code_simp
  have c: "createFolder iso_only_parse 1625479200000 (\<lambda>i. 0) cfg0 [] (Some ''f'') None (Some (AString ''2024-02-29T23:59:59.999Z'')) None =
       (Inr \<lparr>cmeta = ''+++'' @ [CHR 0x0A]
                @ ''slug = '' @ [CHR 0x27] @ ''f'' @ [CHR 0x27, CHR 0x0A]
                @ ''description = '' @ [CHR 0x27] @ [] @ [CHR 0x27, CHR 0x0A]
                @ ''expiry = '' @ ''2024-02-29T23:59:59.999Z'' @ [CHR 0x0A]
                @ ''downloads = 0'' @ [CHR 0x0A]
                @ ''+++'' @ [CHR 0x0A],
             url = ''https://acct.blob.core.windows.net/zwila/f/_zwila.md''\<rparr>,
        [(''f/_zwila.md'', ''+++'' @ [CHR 0x0A]
                @ ''slug = '' @ [CHR 0x27] @ ''f'' @ [CHR 0x27, CHR 0x0A]
                @ ''description = '' @ [CHR 0x27] @ [] @ [CHR 0x27, CHR 0x0A]
                @ ''expiry = '' @ ''2024-02-29T23:59:59.999Z'' @ [CHR 0x0A]
                @ ''downloads = 0'' @ [CHR 0x0A]
                @ ''+++'' @ [CHR 0x0A])])"
    by code_simp
  have d: "createFolder iso_only_parse 1625479200000 (\<lambda>i. 0) cfg0 [] (Some ''f'') None (Some (ADate (Some 1639562400000))) None =
       (Inr \<lparr>cmeta = ''+++'' @ [CHR 0x0A]
                @ ''slug = '' @ [CHR 0x27] @ ''f'' @ [CHR 0x27, CHR 0x0A]
                @ ''description = '' @ [CHR 0x27] @ [] @ [CHR 0x27, CHR 0x0A]
                @ ''expiry = '' @ ''2021-12-15T10:00:00.000Z'' @ [CHR 0x0A]
                @ ''downloads = 0'' @ [CHR 0x0A]
                @ ''+++'' @ [CHR 0x0A],
             url = ''https://acct.blob.core.windows.net/zwila/f/_zwila.md''\<rparr>,
        [(''f/_zwila.md'', ''+++'' @ [CHR 0x0A]
                @ ''slug = '' @ [CHR 0x27] @ ''f'' @ [CHR 0x27, CHR 0x0A]
                @ ''description = '' @ [CHR 0x27] @ [] @ [CHR 0x27, CHR 0x0A]
                @ ''expiry = '' @ ''2021-12-15T10:00:00.000Z'' @ [CHR 0x0A]
                @ ''downloads = 0'' @ [CHR 0x0A]
                @ ''+++'' @ [CHR 0x0A])])"
    by code_simp
  have k: "default_string (Some ''f'') (nanoid (\<lambda>i. 0)) = ''f''" "default_string None [] = []"
    "account cfg0 = ''acct''" "containerName cfg0 = ''zwila''"
    by (simp_all add: default_string_def cfg0_def)
  have d1: "iso_date (945261045678 div msPerDay + 31) @ ''T''
              @ iso_time (945261045678 mod msPerDay) @ ''Z'' = ''2000-01-15T12:30:45.678Z''"
    by code_simp
  have d2: "iso_date (1709251199999 div msPerDay) @ ''T''
              @ iso_time (1709251199999 mod msPerDay) @ ''Z'' = ''2024-02-29T23:59:59.999Z''"
    by code_simp
  note inst = createFolder_stored_expiry [where expiry = None
      and parse = iso_only_parse and rnd = "\<lambda>i. 0" and cfg = cfg0
      and slug = "Some ''f''" and description = None and message = None
      and a = "AString ''2024-02-29T23:59:59.999Z''" and t = 1709251199999]
  from inst [where c = overlapping_names and now = 945261045678, unfolded k d1 d2] h1
  have m1: "map_of (snd (createFolder iso_only_parse 945261045678 (\<lambda>i. 0) cfg0 overlapping_names (Some ''f'') None None None)) =
       (map_of overlapping_names)(''f/_zwila.md'' \<mapsto>
          ''+++'' @ [CHR 0x0A]
                @ ''slug = '' @ [CHR 0x27] @ ''f'' @ [CHR 0x27, CHR 0x0A]
                @ ''description = '' @ [CHR 0x27] @ [] @ [CHR 0x27, CHR 0x0A]
                @ ''expiry = '' @ ''2000-01-15T12:30:45.678Z'' @ [CHR 0x0A]
                @ ''downloads = 0'' @ [CHR 0x0A]
                @ ''+++'' @ [CHR 0x0A])"
    by simp
  from inst [where c = "[]" and now = 1625479200000, unfolded k d1 d2] h2
  have m2: "fst (createFolder iso_only_parse 1625479200000 (\<lambda>i. 0) cfg0 [] (Some ''f'') None (Some (AString ''2024-02-29T23:59:59.999Z'')) None) =
       Inr \<lparr>cmeta = ''+++'' @ [CHR 0x0A]
                @ ''slug = '' @ [CHR 0x27] @ ''f'' @ [CHR 0x27, CHR 0x0A]
                @ ''description = '' @ [CHR 0x27] @ [] @ [CHR 0x27, CHR 0x0A]
                @ ''expiry = '' @ ''2024-02-29T23:59:59.999Z'' @ [CHR 0x0A]
                @ ''downloads = 0'' @ [CHR 0x0A]
                @ ''+++'' @ [CHR 0x0A],
            url = ''https://acct.blob.core.windows.net/zwila/f/_zwila.md''\<rparr>"
    by simp
  from h1 h2 m1 m2 a b c d show ?thesis
    by (simp only: simp_thms)
qed

text \<open>
  C6 as stated fails for some expiries that the caller supplies. The empty string is taken
  as no expiry: the call stores the default, 31 days after the clock reading, as if the
  argument were omitted. A string that does not parse as a date, and an invalid \<open>Date\<close>,
  are not made into an instant: the call throws and stores nothing.
\<close>

theorem createFolder_supplied_expiry_counterexample:
  "createFolder iso_only_parse 1625479200000 (\<lambda>i. 0) cfg0 [] (Some ''f'') None (Some (AString [])) None =
       (Inr \<lparr>cmeta = ''+++'' @ [CHR 0x0A]
                @ ''slug = '' @ [CHR 0x27] @ ''f'' @ [CHR 0x27, CHR 0x0A]
                @ ''description = '' @ [CHR 0x27] @ [] @ [CHR 0x27, CHR 0x0A]
                @ ''expiry = '' @ ''2021-08-05T10:00:00.000Z'' @ [CHR 0x0A]
                @ ''downloads = 0'' @ [CHR 0x0A]
                @ ''+++'' @ [CHR 0x0A],
             url = ''https://acct.blob.core.windows.net/zwila/f/_zwila.md''\<rparr>,
        [(''f/_zwila.md'', ''+++'' @ [CHR 0x0A]
                @ ''slug = '' @ [CHR 0x27] @ ''f'' @ [CHR 0x27, CHR 0x0A]
                @ ''description = '' @ [CHR 0x27] @ [] @ [CHR 0x27, CHR 0x0A]
                @ ''expiry = '' @ ''2021-08-05T10:00:00.000Z'' @ [CHR 0x0A]
                @ ''downloads = 0'' @ [CHR 0x0A]
                @ ''+++'' @ [CHR 0x0A])])
   \<and> createFolder iso_only_parse 1625479200000 (\<lambda>i. 0) cfg0 [] (Some ''f'') None None None =
       createFolder iso_only_parse 1625479200000 (\<lambda>i. 0) cfg0 [] (Some ''f'') None (Some (AString [])) None
   \<and> createFolder iso_only_parse 1625479200000 (\<lambda>i. 0) cfg0 overlapping_names (Some ''f'') None (Some (AString ''5 August 2021'')) None =
       (Inl RangeError, overlapping_names)
   \<and> createFolder iso_only_parse 1625479200000 (\<lambda>i. 0) cfg0 overlapping_names (Some ''f'') None (Some (ADate None)) None =
       (Inl RangeError, overlapping_names)"
  by code_simp

section \<open>Signed URLs\<close>









section \<open>Content types\<close>

lemma str_split_nonempty: "str_split d s \<noteq> []"
  by (induction s) (auto split: list.splits)

lemma str_split_none: "d \<notin> set s \<Longrightarrow> str_split d s = [s]"
  by (induction s) auto

lemma str_split_two: "\<exists>p q ps. str_split d (b @ d # e) = p # q # ps"
proof (induction b)
  case Nil
  then show ?case by (cases "str_split d e") (auto simp: str_split_nonempty)
next
  case (Cons x b)
  then show ?case by auto
qed

lemma last_str_split: "last (str_split d (b @ d # e)) = last (str_split d e)"
proof (induction b)
  case Nil
  then show ?case by (simp add: str_split_nonempty)
next
  case (Cons x b)
  from str_split_two [of d b e] obtain p q ps where "str_split d (b @ d # e) = p # q # ps"
    by blast
  with Cons show ?case by auto
qed

lemma getFileExtension_suffix:
  "CHR ''.'' \<notin> set e \<Longrightarrow> getFileExtension (b @ CHR ''.'' # e) = e"
  by (simp add: getFileExtension_def last_str_split str_split_none)

text \<open>
  C9, as the code has it. For a path that is not binary and a file without detected
  signature, the extensions \<open>txt\<close>, \<open>xml\<close> and \<open>csv\<close> give \<open>text/plain\<close>, \<open>text/xml\<close>
  and \<open>text/csv\<close>, and in the revision that knows markdown \<open>md\<close> gives
  \<open>text/markdown; charset=UTF-8\<close>. A detected signature on a binary path gives the detected
  type. The empty string is returned when a signature is detected on a path that is not
  binary, and when none is detected on a binary path.
\<close>

theorem getContentTypeFromFile_table:
  "getContentTypeFromFile textMimeTypes None False (b @ ''.txt'') = Str ''text/plain''
   \<and> getContentTypeFromFile textMimeTypes None False (b @ ''.xml'') = Str ''text/xml''
   \<and> getContentTypeFromFile textMimeTypes None False (b @ ''.csv'') = Str ''text/csv''
   \<and> getContentTypeFromFile textMimeTypes_md None False (b @ ''.txt'') = Str ''text/plain''
   \<and> getContentTypeFromFile textMimeTypes_md None False (b @ ''.xml'') = Str ''text/xml''
   \<and> getContentTypeFromFile textMimeTypes_md None False (b @ ''.csv'') = Str ''text/csv''
   \<and> getContentTypeFromFile textMimeTypes_md None False (b @ ''.md'') =
       Str ''text/markdown; charset=UTF-8''
   \<and> getContentTypeFromFile table (Some mime) True filepath = Str mime
   \<and> getContentTypeFromFile table (Some mime) False filepath = Str []
   \<and> getContentTypeFromFile table None True filepath = Str []"
proof -
  have ext: "getFileExtension (b @ ''.txt'') = ''txt''" "getFileExtension (b @ ''.xml'') = ''xml''"
    "getFileExtension (b @ ''.csv'') = ''csv''" "getFileExtension (b @ ''.md'') = ''md''"
    using getFileExtension_suffix [of "''txt''" b] getFileExtension_suffix [of "''xml''" b]
      getFileExtension_suffix [of "''csv''" b] getFileExtension_suffix [of "''md''" b]
    by simp_all
  show ?thesis
    by (simp add: getContentTypeFromFile_def ext property_def textMimeTypes_def
        textMimeTypes_md_def)
qed

text \<open>
  C9 as stated fails: the type of \<open>.md\<close> is not \<open>text/markdown\<close> but carries the charset
  (and the earlier revision has no entry for it); and an extension outside the table yields
  \<open>undefined\<close>, not the empty string.
\<close>

theorem getContentTypeFromFile_counterexample:
  "getContentTypeFromFile textMimeTypes_md None False ''README.md'' = Str ''text/markdown; charset=UTF-8''
   \<and> ''text/markdown; charset=UTF-8'' \<noteq> ''text/markdown''
   \<and> getContentTypeFromFile textMimeTypes None False ''README.md'' = Undefined
   \<and> getContentTypeFromFile textMimeTypes_md None False ''notes.log'' = Undefined"
  by code_simp


end
